theory Spec2Isabelle
  imports Complex_Main "HOL-Library.Multiset"
begin

chapter \<open>The dataship group-by engine\<close>

text \<open>
  A shallow embedding of the aggregation core of \<^verbatim>\<open>src/index.js\<close>:
  \<^verbatim>\<open>dataship.util.insert\<close> and \<^verbatim>\<open>binarySearch\<close>, the reducers
  \<^verbatim>\<open>dataship.reduce.*\<close>, the array branch of \<^verbatim>\<open>reduce\<close>,
  \<^verbatim>\<open>dataship.frame.groupby\<close> and \<^verbatim>\<open>dataship.frame.groupers.interval\<close>.

  The fragment of JavaScript that is modelled:
  \<^item> a value is \<^verbatim>\<open>undefined\<close>, a finite number, \<^verbatim>\<open>NaN\<close>, a string, or a member of
    \<^verbatim>\<open>Object.prototype\<close>, which every plain object inherits. A finite number is the
    rational it denotes; the two zeros are one value. The infinities, \<^verbatim>\<open>null\<close>,
    booleans and other objects are not values of the model;
  \<^item> an arithmetic result is given when it is a double of a simple form, which
    JavaScript returns unrounded. Where the result may be rounded, and wherever a
    conversion between strings and numbers is not modelled, the outcome is the error
    \<open>Unsupported\<close>: the model says nothing about what the program does there;
  \<^item> a \<^verbatim>\<open>TypeError\<close> of the program (calling a value that is not a function, reading
    a property of \<^verbatim>\<open>undefined\<close>) is the error \<open>TypeError\<close>;
  \<^item> a plain object used as a dictionary is an association list from property keys to
    values, in creation order, in front of the properties of \<^verbatim>\<open>Object.prototype\<close>.
\<close>

section \<open>Values and errors\<close>

text \<open>
  \<open>Native name\<close> is the value of the property \<open>name\<close> of \<^verbatim>\<open>Object.prototype\<close>: a
  built-in function, and for \<^verbatim>\<open>__proto__\<close> the object \<^verbatim>\<open>Object.prototype\<close> itself.
\<close>

datatype jsval = Undefined | Num rat | NaN | Str string | Native string

datatype error = TypeError | Unsupported

section \<open>Conversions\<close>

text \<open>
  The decimal digits of an integer below \<open>10\<^sup>1\<^sup>6\<close> in magnitude: sixteen digits, the
  leading zeros dropped, after the sign.
\<close>

definition digits16 :: "int \<Rightarrow> string" where
  "digits16 n = map (\<lambda>i. char_of (48 + (n div 10 ^ i) mod 10)) (rev [0..<16])"

definition nat_text :: "int \<Rightarrow> string" where
  "nat_text n =
     (case dropWhile (\<lambda>c. c = CHR ''0'') (digits16 n) of
        [] \<Rightarrow> ''0''
      | c # cs \<Rightarrow> c # cs)"

definition int_text :: "int \<Rightarrow> string" where
  "int_text i = (if i < 0 then CHR ''-'' # nat_text (- i) else nat_text i)"

definition is_int :: "rat \<Rightarrow> bool" where
  "is_int r = (r = of_int \<lfloor>r\<rfloor>)"

text \<open>
  \<^verbatim>\<open>String(x)\<close> for a number: an integer below \<open>2\<^sup>5\<^sup>3\<close> in magnitude is written with
  all its decimal digits. The shortest digits that denote another double are not
  computed.
\<close>

definition num_text :: "rat \<Rightarrow> error + string" where
  "num_text r =
     (if is_int r \<and> \<bar>r\<bar> < 9007199254740992 then Inr (int_text \<lfloor>r\<rfloor>) else Inl Unsupported)"

text \<open>
  The names of the properties of \<^verbatim>\<open>Object.prototype\<close>, and what \<^verbatim>\<open>String\<close> makes of
  their values: the source text of a built-in function, as Node.js prints it, and
  \<^verbatim>\<open>[object Object]\<close> for \<^verbatim>\<open>Object.prototype\<close>. The \<^verbatim>\<open>constructor\<close> is the function
  \<^verbatim>\<open>Object\<close>.
\<close>

definition proto_names :: "string list" where
  "proto_names =
     [''constructor'', ''__defineGetter__'', ''__defineSetter__'', ''hasOwnProperty'',
      ''__lookupGetter__'', ''__lookupSetter__'', ''isPrototypeOf'',
      ''propertyIsEnumerable'', ''toString'', ''valueOf'', ''__proto__'',
      ''toLocaleString'']"

definition native_text :: "string \<Rightarrow> string" where
  "native_text name =
     (if name = ''__proto__'' then ''[object Object]''
      else ''function '' @ (if name = ''constructor'' then ''Object'' else name)
           @ ''() { [native code] }'')"

text \<open>\<^verbatim>\<open>String(v)\<close>, the conversion that \<^verbatim>\<open>+\<close> and property access apply.\<close>

fun text_of :: "jsval \<Rightarrow> error + string" where
  "text_of Undefined = Inr ''undefined''"
| "text_of (Num r) = num_text r"
| "text_of NaN = Inr ''NaN''"
| "text_of (Str s) = Inr s"
| "text_of (Native name) = Inr (native_text name)"

text \<open>
  \<^verbatim>\<open>Number(s)\<close> for a string is \<^verbatim>\<open>NaN\<close> when the string has a character that no
  numeric literal has: a character other than a digit, a sign, the point, white space,
  and the letters of hexadecimal, octal and binary literals, of exponents and of
  \<^verbatim>\<open>Infinity\<close>. The value of the other strings is not computed.
\<close>

definition numeric_char :: "char \<Rightarrow> bool" where
  "numeric_char c =
     (c \<in> set ''0123456789abcdefABCDEFxXoO+-.Infinity''
      \<or> (of_char c :: nat) \<le> 32 \<or> (of_char c :: nat) \<ge> 127)"

definition surely_nan :: "string \<Rightarrow> bool" where
  "surely_nan s = (\<not> list_all numeric_char s)"

text \<open>\<^verbatim>\<open>Number(v)\<close>; \<open>None\<close> is \<^verbatim>\<open>NaN\<close>.\<close>

fun to_number :: "jsval \<Rightarrow> error + rat option" where
  "to_number Undefined = Inr None"
| "to_number (Num r) = Inr (Some r)"
| "to_number NaN = Inr None"
| "to_number (Str s) = (if surely_nan s then Inr None else Inl Unsupported)"
| "to_number (Native name) =
     (if surely_nan (native_text name) then Inr None else Inl Unsupported)"

section \<open>Arithmetic and comparison\<close>

text \<open>
  A rational \<open>p / 2\<^sup>k\<close> with \<open>\<bar>p\<bar> \<le> 2\<^sup>5\<^sup>3\<close> and \<open>k \<le> 1074\<close> is a double. When the
  exact result of an operation on doubles is such a number, it is the result.
\<close>

definition exact :: "rat \<Rightarrow> bool" where
  "exact r = (case quotient_of r of (p, q) \<Rightarrow> \<bar>p\<bar> \<le> 2 ^ 53 \<and> q dvd 2 ^ 1074)"

definition num_result :: "rat \<Rightarrow> error + jsval" where
  "num_result r = (if exact r then Inr (Num r) else Inl Unsupported)"

text \<open>Strings compare by code units, a proper prefix first.\<close>

fun str_less :: "string \<Rightarrow> string \<Rightarrow> bool" where
  "str_less [] [] = False"
| "str_less [] (y # ys) = True"
| "str_less (x # xs) [] = False"
| "str_less (x # xs) (y # ys) =
     ((of_char x :: nat) < of_char y \<or> (x = y \<and> str_less xs ys))"

text \<open>An object becomes a primitive value, here its text, before \<^verbatim>\<open><\<close> and \<^verbatim>\<open>+\<close>.\<close>

fun prim :: "jsval \<Rightarrow> jsval" where
  "prim (Native name) = Str (native_text name)"
| "prim v = v"

text \<open>
  \<^verbatim>\<open>a < b\<close>: two strings compare as strings; otherwise both sides become numbers, and
  the comparison is false when one of them is \<^verbatim>\<open>NaN\<close>, as \<^verbatim>\<open>undefined\<close> is.
\<close>

definition js_less :: "jsval \<Rightarrow> jsval \<Rightarrow> error + bool" where
  "js_less a b =
     (case (prim a, prim b) of
        (Str s, Str t) \<Rightarrow> Inr (str_less s t)
      | (a', b') \<Rightarrow>
          (case to_number a' of
             Inl e \<Rightarrow> Inl e
           | Inr x \<Rightarrow>
               (case to_number b' of
                  Inl e \<Rightarrow> Inl e
                | Inr y \<Rightarrow>
                    (case (x, y) of
                       (Some x', Some y') \<Rightarrow> Inr (x' < y')
                     | other \<Rightarrow> Inr False))))"

text \<open>
  \<^verbatim>\<open>a + b\<close>: concatenation of the texts when a side is a string or an object, and
  addition of numbers otherwise, where \<^verbatim>\<open>undefined\<close> counts as \<^verbatim>\<open>NaN\<close>.
\<close>

definition js_plus :: "jsval \<Rightarrow> jsval \<Rightarrow> error + jsval" where
  "js_plus a b =
     (case (prim a, prim b) of
        (Num x, Num y) \<Rightarrow> num_result (x + y)
      | (Str s, b') \<Rightarrow> (case text_of b' of Inl e \<Rightarrow> Inl e | Inr t \<Rightarrow> Inr (Str (s @ t)))
      | (a', Str t) \<Rightarrow> (case text_of a' of Inl e \<Rightarrow> Inl e | Inr s \<Rightarrow> Inr (Str (s @ t)))
      | other \<Rightarrow> Inr NaN)"

text \<open>\<^verbatim>\<open>v / 2\<close>.\<close>

definition js_half :: "jsval \<Rightarrow> error + jsval" where
  "js_half v =
     (case to_number v of
        Inl e \<Rightarrow> Inl e
      | Inr None \<Rightarrow> Inr NaN
      | Inr (Some r) \<Rightarrow> num_result (r / 2))"

section \<open>Ordered insertion\<close>

text \<open>\<^verbatim>\<open>arr[k]\<close> for an integer \<open>k\<close>: an element, or \<^verbatim>\<open>undefined\<close> out of range.\<close>

definition elem_at :: "jsval list \<Rightarrow> int \<Rightarrow> jsval" where
  "elem_at arr k = (if 0 \<le> k \<and> k < int (length arr) then arr ! nat k else Undefined)"

text \<open>\<^verbatim>\<open>var d = function(a, b){ return a > b ? 1 : a < b ? -1 : 0;};\<close>\<close>

definition d :: "jsval \<Rightarrow> jsval \<Rightarrow> error + int" where
  "d a b =
     (case js_less b a of
        Inl e \<Rightarrow> Inl e
      | Inr gt \<Rightarrow>
          if gt then Inr 1
          else (case js_less a b of
                  Inl e \<Rightarrow> Inl e
                | Inr lt \<Rightarrow> if lt then Inr (- 1) else Inr 0))"

text \<open>
  \<^verbatim>\<open>x >> 1\<close> takes the integer \<open>x\<close> modulo \<open>2\<^sup>3\<^sup>2\<close> into the range from \<open>-2\<^sup>3\<^sup>1\<close> to
  \<open>2\<^sup>3\<^sup>1 - 1\<close> and halves it, rounding down.
\<close>

definition to_int32 :: "int \<Rightarrow> int" where
  "to_int32 x = (x + 2147483648) mod 4294967296 - 2147483648"

text \<open>
  The \<^verbatim>\<open>while (m <= n)\<close> loop of \<^verbatim>\<open>binarySearch\<close>, with its two variables as
  arguments, unrolled at most \<open>fuel\<close> times: a run that needs more iterations is
  \<open>Unsupported\<close>.
\<close>

fun search_loop ::
  "nat \<Rightarrow> jsval list \<Rightarrow> jsval \<Rightarrow> (jsval \<Rightarrow> jsval \<Rightarrow> error + int) \<Rightarrow> int \<Rightarrow> int
     \<Rightarrow> error + int" where
  "search_loop 0 arr el comparator m n = (if m \<le> n then Inl Unsupported else Inr m)"
| "search_loop (Suc fuel) arr el comparator m n =
     (if m \<le> n then
        (let k = to_int32 (n + m) div 2 in
         case comparator el (elem_at arr k) of
           Inl e \<Rightarrow> Inl e
         | Inr cmp \<Rightarrow>
             if cmp > 0 then search_loop fuel arr el comparator (k + 1) n
             else if cmp < 0 then search_loop fuel arr el comparator m (k - 1)
             else Inr k)
      else Inr m)"

text \<open>
  \<^verbatim>\<open>binarySearch\<close>; \<open>n\<close> starts at \<open>length - 1\<close>, which is \<open>-1\<close> for the empty array.
  As long as \<open>k\<close> lies between \<open>m\<close> and \<open>n\<close> the loop ends within \<open>length\<close> iterations.
\<close>

definition binarySearch ::
  "jsval list \<Rightarrow> jsval \<Rightarrow> (jsval \<Rightarrow> jsval \<Rightarrow> error + int) \<Rightarrow> error + int" where
  "binarySearch arr el comparator =
     search_loop (length arr) arr el comparator 0 (int (length arr) - 1)"

text \<open>
  \<^verbatim>\<open>arr.splice(index, 0, el)\<close>: a negative start counts from the end, and the start is
  clamped to the array.
\<close>

definition splice0 :: "'a list \<Rightarrow> int \<Rightarrow> 'a \<Rightarrow> 'a list" where
  "splice0 arr start el =
     (let len = int (length arr);
          s = (if start < 0 then max (len + start) 0 else min start len)
      in take (nat s) arr @ [el] @ drop (nat s) arr)"

text \<open>\<^verbatim>\<open>dataship.util.insert\<close>; the array it mutates is the list it returns.\<close>

definition insert_el :: "jsval list \<Rightarrow> jsval \<Rightarrow> error + jsval list" where
  "insert_el arr el =
     (case binarySearch arr el d of
        Inl e \<Rightarrow> Inl e
      | Inr index \<Rightarrow> Inr (splice0 arr index el))"

section \<open>Property keys and plain objects\<close>

text \<open>
  A property key is a string. Keys that are array indices (the canonical decimal
  spelling of an integer from \<open>0\<close> to \<open>2\<^sup>3\<^sup>2 - 2\<close>) are kept apart, because
  JavaScript enumerates them first and in ascending order. A value used as a key is
  converted to its text: the number \<open>1999\<close> and the string \<^verbatim>\<open>"1999"\<close> are the same key,
  and so are \<open>-1\<close> and \<^verbatim>\<open>"-1"\<close>.
\<close>

datatype pkey = Index nat | StrName string

definition is_digit :: "char \<Rightarrow> bool" where
  "is_digit c = (48 \<le> (of_char c :: nat) \<and> (of_char c :: nat) \<le> 57)"

definition dec_value :: "string \<Rightarrow> int" where
  "dec_value s = foldl (\<lambda>acc c. 10 * acc + ((of_char c :: int) - 48)) 0 s"

definition index_of_string :: "string \<Rightarrow> nat option" where
  "index_of_string s =
     (if s \<noteq> [] \<and> list_all is_digit s \<and> (hd s \<noteq> CHR ''0'' \<or> s = ''0'')
         \<and> dec_value s < 4294967295
      then Some (nat (dec_value s)) else None)"

definition key_of_string :: "string \<Rightarrow> pkey" where
  "key_of_string s = (case index_of_string s of Some i \<Rightarrow> Index i | None \<Rightarrow> StrName s)"

definition to_key :: "jsval \<Rightarrow> error + pkey" where
  "to_key v = (case text_of v of Inl e \<Rightarrow> Inl e | Inr s \<Rightarrow> Inr (key_of_string s))"

text \<open>
  What a plain object inherits under a key: the member of \<^verbatim>\<open>Object.prototype\<close> of
  that name, if there is one.
\<close>

definition inherited :: "pkey \<Rightarrow> jsval" where
  "inherited k =
     (case k of
        Index i \<Rightarrow> Undefined
      | StrName s \<Rightarrow> if s \<in> set proto_names then Native s else Undefined)"

text \<open>
  The own properties of a plain object, in creation order. \<^verbatim>\<open>obj[k]\<close> reads an own
  property or else the inherited one; \<^verbatim>\<open>k in obj\<close> finds both.
\<close>

definition obj_get :: "(pkey \<times> jsval) list \<Rightarrow> pkey \<Rightarrow> jsval" where
  "obj_get obj k = (case map_of obj k of None \<Rightarrow> inherited k | Some v \<Rightarrow> v)"

definition has_prop :: "(pkey \<times> jsval) list \<Rightarrow> pkey \<Rightarrow> bool" where
  "has_prop obj k = (map_of obj k \<noteq> None \<or> inherited k \<noteq> Undefined)"

text \<open>Writing an own property: an existing property keeps its place.\<close>

fun obj_set :: "(pkey \<times> 'v) list \<Rightarrow> pkey \<Rightarrow> 'v \<Rightarrow> (pkey \<times> 'v) list" where
  "obj_set [] k v = [(k, v)]"
| "obj_set ((k', v') # ps) k v =
     (if k' = k then (k, v) # ps else (k', v') # obj_set ps k v)"

text \<open>
  \<^verbatim>\<open>obj[k] = v\<close> on a plain object. The key \<^verbatim>\<open>__proto__\<close> is an accessor of
  \<^verbatim>\<open>Object.prototype\<close>: assigning a primitive value to it does nothing, and so does
  assigning \<^verbatim>\<open>Object.prototype\<close>, which is the prototype already. Another object
  would become the prototype, which is not modelled.
\<close>

definition obj_put :: "(pkey \<times> jsval) list \<Rightarrow> pkey \<Rightarrow> jsval \<Rightarrow> error + (pkey \<times> jsval) list" where
  "obj_put obj k v =
     (if k = StrName ''__proto__''
      then (case v of
              Native name \<Rightarrow> if name = ''__proto__'' then Inr obj else Inl Unsupported
            | Undefined \<Rightarrow> Inr obj
            | Num r \<Rightarrow> Inr obj
            | NaN \<Rightarrow> Inr obj
            | Str s \<Rightarrow> Inr obj)
      else Inr (obj_set obj k v))"

text \<open>The own property keys of a plain object, in creation order.\<close>

definition keys_of :: "(pkey \<times> 'v) list \<Rightarrow> pkey list" where
  "keys_of obj = map fst obj"



text \<open>
  The keys of a list in the order of their first occurrence: the order in which a pass
  over the list meets them.
\<close>

fun first_seen :: "'a list \<Rightarrow> 'a list" where
  "first_seen [] = []"
| "first_seen (x # xs) = x # [y \<leftarrow> first_seen xs. y \<noteq> x]"

section \<open>Reducers\<close>

text \<open>
  A reducer is a function object. The engine writes and reads its \<^verbatim>\<open>state\<close>
  property; \<^verbatim>\<open>dataship.reduce.mode\<close> and \<^verbatim>\<open>dataship.reduce.median\<close> both keep
  their working data in \<^verbatim>\<open>dataship.reduce.mode.state\<close>. The \<^verbatim>\<open>state\<close> properties
  of all function objects form the store \<open>fstore\<close>.

  A \<^verbatim>\<open>state\<close> property holds \<^verbatim>\<open>undefined\<close>, a state object, or a member of
  \<^verbatim>\<open>Object.prototype\<close> that the engine found in its table of states. A state object
  has at most the properties \<^verbatim>\<open>values\<close> (the frequency table of \<^verbatim>\<open>mode\<close>, a plain
  object, or the sorted array of \<^verbatim>\<open>median\<close>) and \<^verbatim>\<open>argmax\<close>. The objects are held
  by value: the engine copies \<^verbatim>\<open>reducer.state\<close> back into its table after every call,
  and no state object is reachable from two groups.
\<close>

datatype fname = MaxF | MinF | ModeF | MedianF | CountF | SumF | MeanF | UserF nat

datatype selfvalues = Freq "(pkey \<times> jsval) list" | Arr "jsval list"

record stobj =
  svalues :: "selfvalues option"
  argmax :: jsval

datatype sref = SUndef | SObj stobj | SNative string

type_synonym fstore = "fname \<Rightarrow> sref"

text \<open>A reducer is called with the aggregate, the value and the count or index.\<close>

type_synonym reducer_fn =
  "fstore \<Rightarrow> jsval \<Rightarrow> jsval \<Rightarrow> jsval \<Rightarrow> error + jsval \<times> fstore"

record reducer =
  fobj :: fname
  invoke :: reducer_fn

text \<open>The object literal \<^verbatim>\<open>{}\<close>.\<close>

definition empty_obj :: stobj where
  "empty_obj = \<lparr>svalues = None, argmax = Undefined\<rparr>"

text \<open>\<^verbatim>\<open>function(agg, val) { return agg > val ? agg : val; }\<close>\<close>

definition reduce_max :: reducer_fn where
  "reduce_max fs agg val n =
     (case js_less val agg of
        Inl e \<Rightarrow> Inl e
      | Inr gt \<Rightarrow> Inr (if gt then agg else val, fs))"

text \<open>\<^verbatim>\<open>function(agg, val) { return agg < val ? agg : val; }\<close>\<close>

definition reduce_min :: reducer_fn where
  "reduce_min fs agg val n =
     (case js_less agg val of
        Inl e \<Rightarrow> Inl e
      | Inr lt \<Rightarrow> Inr (if lt then agg else val, fs))"

text \<open>
  The statements of \<^verbatim>\<open>mode\<close> that update the frequency table: 
  \<^verbatim>\<open>if(val in self.values) self.values[val] += 1; else self.values[val] = 1;\<close>
\<close>

definition tally :: "(pkey \<times> jsval) list \<Rightarrow> pkey \<Rightarrow> error + (pkey \<times> jsval) list" where
  "tally t k =
     (if has_prop t k
      then (case js_plus (obj_get t k) (Num 1) of
              Inl e \<Rightarrow> Inl e
            | Inr c \<Rightarrow> obj_put t k c)
      else obj_put t k (Num 1))"

text \<open>
  \<^verbatim>\<open>dataship.reduce.mode\<close>. For \<open>n = 1\<close> a new state object replaces
  \<^verbatim>\<open>dataship.reduce.mode.state\<close>; otherwise the object found there is used. Reading
  \<^verbatim>\<open>self.values\<close> of \<^verbatim>\<open>undefined\<close>, and \<^verbatim>\<open>val in undefined\<close>, throw. What the
  program does with a member of \<^verbatim>\<open>Object.prototype\<close> or an array in the place of the
  table is not modelled.
\<close>

definition reduce_mode :: reducer_fn where
  "reduce_mode fs agg val n =
     (if n = Num 0 then Inr (val, fs)
      else
        case (if n = Num 1
              then (case to_key agg of
                      Inl e \<Rightarrow> Inl e
                    | Inr ka \<Rightarrow>
                        (case obj_put [] ka (Num 1) of
                           Inl e \<Rightarrow> Inl e
                         | Inr t \<Rightarrow>
                             Inr (fs(ModeF := SObj \<lparr>svalues = Some (Freq t), argmax = agg\<rparr>))))
              else Inr fs) of
          Inl e \<Rightarrow> Inl e
        | Inr fs1 \<Rightarrow>
            (case fs1 ModeF of
               SUndef \<Rightarrow> Inl TypeError
             | SNative name \<Rightarrow> Inl Unsupported
             | SObj self \<Rightarrow>
                 (case svalues self of
                    None \<Rightarrow> Inl TypeError
                  | Some (Arr a) \<Rightarrow> Inl Unsupported
                  | Some (Freq t) \<Rightarrow>
                      (case to_key val of
                         Inl e \<Rightarrow> Inl e
                       | Inr kv \<Rightarrow>
                           (case tally t kv of
                              Inl e \<Rightarrow> Inl e
                            | Inr t' \<Rightarrow>
                                (case to_key agg of
                                   Inl e \<Rightarrow> Inl e
                                 | Inr ka \<Rightarrow>
                                     (case js_less (obj_get t' ka) (obj_get t' kv) of
                                        Inl e \<Rightarrow> Inl e
                                      | Inr exceeds \<Rightarrow>
                                          let self' = \<lparr>svalues = Some (Freq t'),
                                                       argmax = (if exceeds then val
                                                                 else argmax self)\<rparr>
                                          in Inr (argmax self',
                                                  fs1(ModeF := SObj self')))))))))"

text \<open>
  \<^verbatim>\<open>dataship.reduce.median\<close>. Its state lives in \<^verbatim>\<open>dataship.reduce.mode.state\<close>
  as well (\<open>ModeF\<close>), as the source has it. \<^verbatim>\<open>length / 2 | 0\<close> is \<open>length div 2\<close>.
  What \<^verbatim>\<open>insert\<close> does to an object that is not an array is not modelled.
\<close>

definition reduce_median :: reducer_fn where
  "reduce_median fs agg val n =
     (if n = Num 0 then Inr (val, fs)
      else
        let fs1 = (if n = Num 1
                   then fs(ModeF := SObj \<lparr>svalues = Some (Arr [agg]), argmax = Undefined\<rparr>)
                   else fs)
        in case fs1 ModeF of
             SUndef \<Rightarrow> Inl TypeError
           | SNative name \<Rightarrow> Inl Unsupported
           | SObj self \<Rightarrow>
               (case svalues self of
                  None \<Rightarrow> Inl TypeError
                | Some (Freq t) \<Rightarrow> Inl Unsupported
                | Some (Arr a) \<Rightarrow>
                    (case insert_el a val of
                       Inl e \<Rightarrow> Inl e
                     | Inr a' \<Rightarrow>
                         let fs2 = fs1(ModeF := SObj (self\<lparr>svalues := Some (Arr a')\<rparr>));
                             middle = length a' div 2
                         in if length a' mod 2 \<noteq> 0
                            then Inr (a' ! middle, fs2)
                            else (case js_plus (a' ! (middle - 1)) (a' ! middle) of
                                    Inl e \<Rightarrow> Inl e
                                  | Inr s \<Rightarrow>
                                      (case js_half s of
                                         Inl e \<Rightarrow> Inl e
                                       | Inr r \<Rightarrow> Inr (r, fs2))))))"

text \<open>\<^verbatim>\<open>function(agg, val, n){ return n + 1; }\<close>\<close>

definition reduce_count :: reducer_fn where
  "reduce_count fs agg val n =
     (case js_plus n (Num 1) of Inl e \<Rightarrow> Inl e | Inr r \<Rightarrow> Inr (r, fs))"

text \<open>\<^verbatim>\<open>function(agg, val){ return agg + val; }\<close>\<close>

definition reduce_sum :: reducer_fn where
  "reduce_sum fs agg val n =
     (case js_plus agg val of Inl e \<Rightarrow> Inl e | Inr r \<Rightarrow> Inr (r, fs))"

text \<open>
  \<^verbatim>\<open>function(agg, val, n){ return (agg + ((val - agg)/(n + 1))); }\<close> on three
  finite numbers, when every intermediate result is exact.
\<close>

definition reduce_mean :: reducer_fn where
  "reduce_mean fs agg val n =
     (case (agg, val, n) of
        (Num a, Num v, Num c) \<Rightarrow>
          if exact (v - a) \<and> exact (c + 1) \<and> c + 1 \<noteq> 0 \<and> exact ((v - a) / (c + 1))
          then (case num_result (a + (v - a) / (c + 1)) of
                  Inl e \<Rightarrow> Inl e
                | Inr r \<Rightarrow> Inr (r, fs))
          else Inl Unsupported
      | other \<Rightarrow> Inl Unsupported)"

text \<open>The function objects \<^verbatim>\<open>dataship.reduce.*\<close>.\<close>

definition ds_max :: reducer where "ds_max = \<lparr>fobj = MaxF, invoke = reduce_max\<rparr>"
definition ds_min :: reducer where "ds_min = \<lparr>fobj = MinF, invoke = reduce_min\<rparr>"
definition ds_mode :: reducer where "ds_mode = \<lparr>fobj = ModeF, invoke = reduce_mode\<rparr>"
definition ds_median :: reducer where "ds_median = \<lparr>fobj = MedianF, invoke = reduce_median\<rparr>"
definition ds_count :: reducer where "ds_count = \<lparr>fobj = CountF, invoke = reduce_count\<rparr>"
definition ds_sum :: reducer where "ds_sum = \<lparr>fobj = SumF, invoke = reduce_sum\<rparr>"
definition ds_mean :: reducer where "ds_mean = \<lparr>fobj = MeanF, invoke = reduce_mean\<rparr>"

text \<open>
  \<^verbatim>\<open>reduce(data, func, initial)\<close> on an array, that is \<^verbatim>\<open>Array.prototype.reduce\<close>:
  without an initial value the first element is the seed and the callback first runs
  at index 1; on an empty array it throws.
\<close>

fun reduce_from ::
  "reducer_fn \<Rightarrow> fstore \<Rightarrow> jsval \<Rightarrow> jsval list \<Rightarrow> nat \<Rightarrow> error + jsval \<times> fstore" where
  "reduce_from func fs acc [] i = Inr (acc, fs)"
| "reduce_from func fs acc (x # xs) i =
     (case func fs acc x (Num (of_nat i)) of
        Inl e \<Rightarrow> Inl e
      | Inr (acc', fs') \<Rightarrow> reduce_from func fs' acc' xs (Suc i))"

definition reduce ::
  "fstore \<Rightarrow> jsval list \<Rightarrow> reducer_fn \<Rightarrow> jsval \<Rightarrow> error + jsval \<times> fstore" where
  "reduce fs data func initial =
     (if initial = Undefined
      then (case data of [] \<Rightarrow> Inl TypeError | x # xs \<Rightarrow> reduce_from func fs x xs 1)
      else reduce_from func fs initial data 0)"

section \<open>The grouping engine\<close>

text \<open>
  A row is a plain object, here the map of its own fields; \<^verbatim>\<open>row[field]\<close> reads an
  own field or else what a plain object inherits under that name.
\<close>

type_synonym row = "string \<Rightarrow> jsval option"

definition get :: "row \<Rightarrow> string \<Rightarrow> jsval" where
  "get row field =
     (case row field of
        None \<Rightarrow> if field \<in> set proto_names then Native field else Undefined
      | Some v \<Rightarrow> v)"

text \<open>
  A grouper or selector argument: a string (a field name), a function, or anything
  else. For a value that is neither, only its truthiness matters
  (\<^verbatim>\<open>selector || grouper\<close>); an omitted argument is \<open>Other False\<close>.
  A function of the program takes a row and returns a value or throws.
\<close>

datatype arg = Field string | Callable "row \<Rightarrow> error + jsval" | Other bool

fun truthy :: "arg \<Rightarrow> bool" where
  "truthy (Field s) = (s \<noteq> [])"
| "truthy (Callable f) = True"
| "truthy (Other b) = b"

text \<open>\<^verbatim>\<open>f(row)\<close>: calling a value that is not a function throws a \<^verbatim>\<open>TypeError\<close>.\<close>

fun call :: "arg \<Rightarrow> row \<Rightarrow> error + jsval" where
  "call (Callable f) row = f row"
| "call (Field s) row = Inl TypeError"
| "call (Other b) row = Inl TypeError"

text \<open>
  \<^verbatim>\<open>if(typeof(x) === "string"){ var field = x; x = function(row){ return row[field]; }; }\<close>
\<close>

fun resolve :: "arg \<Rightarrow> arg" where
  "resolve (Field field) = Callable (\<lambda>row. Inr (get row field))"
| "resolve (Callable f) = Callable f"
| "resolve (Other b) = Other b"

text \<open>
  The three local objects \<^verbatim>\<open>result\<close>, \<^verbatim>\<open>count\<close> and \<^verbatim>\<open>state\<close> of
  \<^verbatim>\<open>groupby\<close>, and the \<^verbatim>\<open>state\<close> properties of the function objects. The
  table of states is the map of its own properties.
\<close>

record tables =
  result :: "(pkey \<times> jsval) list"
  count :: "(pkey \<times> jsval) list"
  state :: "pkey \<Rightarrow> sref option"
  fprops :: fstore

text \<open>\<^verbatim>\<open>var result = {}; var count = {}; var state = {};\<close>\<close>

definition init_tables :: "fstore \<Rightarrow> tables" where
  "init_tables fs = \<lparr>result = [], count = [], state = (\<lambda>k. None), fprops = fs\<rparr>"

text \<open>
  \<^verbatim>\<open>state[id]\<close> and \<^verbatim>\<open>state[id] = s\<close>. Under the key \<^verbatim>\<open>__proto__\<close> the
  assignment of an object other than \<^verbatim>\<open>Object.prototype\<close> would change what the
  table inherits.
\<close>

definition state_get :: "(pkey \<Rightarrow> sref option) \<Rightarrow> pkey \<Rightarrow> sref" where
  "state_get S k =
     (case S k of
        Some s \<Rightarrow> s
      | None \<Rightarrow>
          (case inherited k of
             Native name \<Rightarrow> SNative name
           | Undefined \<Rightarrow> SUndef
           | Num r \<Rightarrow> SUndef
           | NaN \<Rightarrow> SUndef
           | Str s \<Rightarrow> SUndef))"

definition state_put ::
  "(pkey \<Rightarrow> sref option) \<Rightarrow> pkey \<Rightarrow> sref \<Rightarrow> error + (pkey \<Rightarrow> sref option)" where
  "state_put S k s =
     (if k = StrName ''__proto__''
      then (case s of
              SUndef \<Rightarrow> Inr S
            | SNative name \<Rightarrow> if name = ''__proto__'' then Inr S else Inl Unsupported
            | SObj ob \<Rightarrow> Inl Unsupported)
      else Inr (S(k \<mapsto> s)))"

text \<open>
  The tail of the loop body:
  \<^verbatim>\<open>agg = result[id]; n = count[id]; reducer.state = state[id];
  result[id] = reducer(agg, val, n); state[id] = reducer.state; count[id] = n + 1;\<close>
\<close>

definition reduce_row :: "reducer \<Rightarrow> pkey \<Rightarrow> jsval \<Rightarrow> tables \<Rightarrow> error + tables" where
  "reduce_row reducer k val T =
     (let agg = obj_get (result T) k;
          n = obj_get (count T) k
      in case invoke reducer ((fprops T)(fobj reducer := state_get (state T) k)) agg val n of
           Inl e \<Rightarrow> Inl e
         | Inr (r, fs') \<Rightarrow>
             (case obj_put (result T) k r of
                Inl e \<Rightarrow> Inl e
              | Inr R \<Rightarrow>
                  (case state_put (state T) k (fs' (fobj reducer)) of
                     Inl e \<Rightarrow> Inl e
                   | Inr S \<Rightarrow>
                       (case js_plus n (Num 1) of
                          Inl e \<Rightarrow> Inl e
                        | Inr c \<Rightarrow>
                            (case obj_put (count T) k c of
                               Inl e \<Rightarrow> Inl e
                             | Inr C \<Rightarrow>
                                 Inr (T\<lparr>result := R, count := C, state := S,
                                         fprops := fs'\<rparr>))))))"

text \<open>
  The seeding of a group: \<^verbatim>\<open>result[id] = v; count[id] = c; state[id] = {};\<close>
\<close>

definition seed :: "pkey \<Rightarrow> jsval \<Rightarrow> jsval \<Rightarrow> tables \<Rightarrow> error + tables" where
  "seed k v c T =
     (case obj_put (result T) k v of
        Inl e \<Rightarrow> Inl e
      | Inr R \<Rightarrow>
          (case obj_put (count T) k c of
             Inl e \<Rightarrow> Inl e
           | Inr C \<Rightarrow>
               (case state_put (state T) k (SObj empty_obj) of
                  Inl e \<Rightarrow> Inl e
                | Inr S \<Rightarrow> Inr (T\<lparr>result := R, count := C, state := S\<rparr>))))"

text \<open>
  The loop body for one row. \<^verbatim>\<open>initial != null\<close> holds exactly when an initial value
  was supplied; an omitted one is \<^verbatim>\<open>undefined\<close>.
\<close>

definition step ::
  "arg \<Rightarrow> arg \<Rightarrow> reducer \<Rightarrow> jsval \<Rightarrow> tables \<Rightarrow> row \<Rightarrow> error + tables" where
  "step grouper selector reducer initial T row =
     (case call grouper row of
        Inl e \<Rightarrow> Inl e
      | Inr gid \<Rightarrow>
          (case call selector row of
             Inl e \<Rightarrow> Inl e
           | Inr val \<Rightarrow>
               (case to_key gid of
                  Inl e \<Rightarrow> Inl e
                | Inr k \<Rightarrow>
                    if obj_get (result T) k = Undefined then
                      if initial \<noteq> Undefined then
                        (case seed k initial (Num 0) T of
                           Inl e \<Rightarrow> Inl e
                         | Inr T' \<Rightarrow> reduce_row reducer k val T')
                      else seed k val (Num 1) T
                    else reduce_row reducer k val T)))"

text \<open>\<^verbatim>\<open>for(i = 0; i < dataset.length; i++)\<close>\<close>

fun pass ::
  "arg \<Rightarrow> arg \<Rightarrow> reducer \<Rightarrow> jsval \<Rightarrow> row list \<Rightarrow> tables \<Rightarrow> error + tables" where
  "pass grouper selector reducer initial [] T = Inr T"
| "pass grouper selector reducer initial (row # rows) T =
     (case step grouper selector reducer initial T row of
        Inl e \<Rightarrow> Inl e
      | Inr T' \<Rightarrow> pass grouper selector reducer initial rows T')"

text \<open>
  \<^verbatim>\<open>dataship.frame.groupby\<close>, from the \<^verbatim>\<open>state\<close> properties \<open>fs\<close> the function
  objects have when it is called. An omitted reducer is \<open>None\<close>. It returns the
  \<^verbatim>\<open>result\<close> object and the \<^verbatim>\<open>state\<close> properties it leaves behind.
\<close>

definition groupby ::
  "fstore \<Rightarrow> row list \<Rightarrow> arg \<Rightarrow> arg \<Rightarrow> reducer option \<Rightarrow> jsval
     \<Rightarrow> error + (pkey \<times> jsval) list \<times> fstore" where
  "groupby fs dataset grouper selector reducer initial =
     (let (reducer', initial') = (case reducer of
                                   None \<Rightarrow> (ds_count, Num 0)
                                 | Some r \<Rightarrow> (r, initial));
          grouper' = resolve grouper;
          selector' = resolve (if truthy selector then selector else grouper')
      in case pass grouper' selector' reducer' initial' dataset (init_tables fs) of
           Inl e \<Rightarrow> Inl e
         | Inr T \<Rightarrow> Inr (result T, fprops T))"

section \<open>The interval grouper\<close>

text \<open>
  The \<^verbatim>\<open>labeler\<close> chosen by \<^verbatim>\<open>interval\<close>. Labels are strings; omitted labels are
  \<open>None\<close>. With as many labels as bounds the last interval is \<^verbatim>\<open>">" + labels[i - 1]\<close>,
  and \<^verbatim>\<open>labels[-1]\<close> is \<^verbatim>\<open>undefined\<close>.
\<close>

definition labeler :: "rat list \<Rightarrow> string list option \<Rightarrow> nat \<Rightarrow> jsval" where
  "labeler bounds labels i =
     (case labels of
        None \<Rightarrow> Num (of_nat i)
      | Some ls \<Rightarrow>
          if length ls < length bounds then Num (of_nat i)
          else if length ls \<ge> length bounds + 1
               then (if i < length ls then Str (ls ! i) else Undefined)
          else if i < length ls then Str (ls ! i)
               else Str (''>'' @ (if 1 \<le> i \<and> i - 1 < length ls then ls ! (i - 1)
                                  else ''undefined'')))"

text \<open>
  \<^verbatim>\<open>for(var i = 0; i < bounds.length; i++){ if(val < bounds[i]) return labeler(i); }
  return labeler(i);\<close> The index the scan stops at, counted from \<open>i\<close>.
\<close>

fun scan :: "jsval \<Rightarrow> rat list \<Rightarrow> nat \<Rightarrow> error + nat" where
  "scan val [] i = Inr i"
| "scan val (b # bs) i =
     (case js_less val (Num b) of
        Inl e \<Rightarrow> Inl e
      | Inr lt \<Rightarrow> if lt then Inr i else scan val bs (Suc i))"

definition interval :: "arg \<Rightarrow> rat list \<Rightarrow> string list option \<Rightarrow> arg" where
  "interval selector bounds labels =
     (let selector' = resolve selector
      in Callable (\<lambda>row.
           case call selector' row of
             Inl e \<Rightarrow> Inl e
           | Inr val \<Rightarrow>
               (case scan val bounds 0 of
                  Inl e \<Rightarrow> Inl e
                | Inr i \<Rightarrow> Inr (labeler bounds labels i))))"

section \<open>Example data\<close>

text \<open>No function object has a \<^verbatim>\<open>state\<close> property yet.\<close>

definition no_state :: fstore where
  "no_state = (\<lambda>f. SUndef)"

text \<open>The dataset of the documentation of \<^verbatim>\<open>groupby\<close> and \<^verbatim>\<open>interval\<close>.\<close>

definition fight_club :: row where
  "fight_club =
     [''Title'' \<mapsto> Str ''Fight Club'', ''Year'' \<mapsto> Num 1999, ''Rating'' \<mapsto> Num (89/10)]"

definition the_matrix :: row where
  "the_matrix =
     [''Title'' \<mapsto> Str ''The Matrix'', ''Year'' \<mapsto> Num 1999, ''Rating'' \<mapsto> Num (87/10)]"

definition stranger :: row where
  "stranger =
     [''Title'' \<mapsto> Str ''Stranger Than Fiction'', ''Year'' \<mapsto> Num 2006,
      ''Rating'' \<mapsto> Num (76/10)]"


text \<open>Rows of two groups, alternating.\<close>

definition interleaved :: "row list" where
  "interleaved = [
     [''g'' \<mapsto> Str ''A'', ''x'' \<mapsto> Num 1],
     [''g'' \<mapsto> Str ''B'', ''x'' \<mapsto> Num 10],
     [''g'' \<mapsto> Str ''A'', ''x'' \<mapsto> Num 2],
     [''g'' \<mapsto> Str ''B'', ''x'' \<mapsto> Num 20],
     [''g'' \<mapsto> Str ''A'', ''x'' \<mapsto> Num 3]]"


section \<open>Invariants of the pass\<close>


section \<open>Notions of the specification\<close>

text \<open>
  A sequence of values is in order when no element is less than an earlier one, by
  \<^verbatim>\<open><\<close>.
\<close>

definition js_sorted :: "jsval list \<Rightarrow> bool" where
  "js_sorted vs = sorted_wrt (\<lambda>a b. js_less b a \<noteq> Inr True) vs"

text \<open>\<^verbatim>\<open>insert\<close>, value after value.\<close>

fun insert_each :: "jsval list \<Rightarrow> jsval list \<Rightarrow> error + jsval list" where
  "insert_each arr [] = Inr arr"
| "insert_each arr (v # vs) =
     (case insert_el arr v of
        Inl e \<Rightarrow> Inl e
      | Inr arr' \<Rightarrow> insert_each arr' vs)"

text \<open>
  A plain key is a property key under which a plain object inherits nothing: an array
  index, or a name that is not the name of a member of \<^verbatim>\<open>Object.prototype\<close>.
\<close>

definition plain_key :: "pkey \<Rightarrow> bool" where
  "plain_key k = (inherited k = Undefined)"

chapter \<open>Properties\<close>

section \<open>Ordered insertion\<close>

lemma js_less_Num [simp]: "js_less (Num a) (Num b) = Inr (a < b)"
  by (simp add: js_less_def)

lemma d_Num: "d (Num a) (Num b) = Inr (if a > b then 1 else if a < b then - 1 else 0)"
  by (simp add: d_def)

lemma to_int32_id: "- 2147483648 \<le> x \<Longrightarrow> x < 2147483648 \<Longrightarrow> to_int32 x = x"
  by (simp add: to_int32_def)

lemma elem_at_Num:
  "0 \<le> k \<Longrightarrow> k < int (length arr) \<Longrightarrow> elem_at (map Num arr) k = Num (arr ! nat k)"
  by (simp add: elem_at_def)

lemma js_sorted_Num: "js_sorted (map Num xs) = sorted xs"
  by (induction xs) (auto simp: js_sorted_def)

lemma search_loop_bounds:
  assumes "sorted arr" and "length arr \<le> 1073741824"
  shows "0 \<le> m \<Longrightarrow> m \<le> n + 1 \<Longrightarrow> n < int (length arr) \<Longrightarrow> nat (n - m + 1) \<le> fuel \<Longrightarrow>
   (\<forall>i. 0 \<le> i \<and> i < m \<longrightarrow> arr ! nat i \<le> el) \<Longrightarrow>
   (\<forall>i. n < i \<and> i < int (length arr) \<longrightarrow> el \<le> arr ! nat i) \<Longrightarrow>
   \<exists>r. search_loop fuel (map Num arr) (Num el) d m n = Inr r \<and>
      0 \<le> r \<and> r \<le> int (length arr) \<and>
      (\<forall>i. 0 \<le> i \<and> i < r \<longrightarrow> arr ! nat i \<le> el) \<and>
      (\<forall>i. r \<le> i \<and> i < int (length arr) \<longrightarrow> el \<le> arr ! nat i)"
proof (induction fuel arbitrary: m n)
  case 0
  then have mn: "m = n + 1" by simp
  then have "search_loop 0 (map Num arr) (Num el) d m n = Inr m" by simp
  then show ?case using 0 mn by auto
next
  case (Suc fuel)
  show ?case
  proof (cases "m \<le> n")
    case False
    with Suc.prems have mn: "m = n + 1" by simp
    from False have r: "search_loop (Suc fuel) (map Num arr) (Num el) d m n = Inr m" by simp
    show ?thesis using r Suc.prems mn by auto
  next
    case True
    define k where "k = (n + m) div 2"
    have small: "- 2147483648 \<le> n + m" "n + m < 2147483648"
      using True Suc.prems assms(2) by simp_all
    have k32: "to_int32 (n + m) div 2 = k" by (simp add: k_def to_int32_id[OF small])
    have kb: "m \<le> k" "k \<le> n" using True by (auto simp: k_def)
    have kin: "0 \<le> k" "k < int (length arr)" using kb Suc.prems by auto
    have atk: "elem_at (map Num arr) k = Num (arr ! nat k)" using kin by (rule elem_at_Num)
    have mono: "\<And>i j. 0 \<le> i \<Longrightarrow> i \<le> j \<Longrightarrow> j < int (length arr) \<Longrightarrow> arr ! nat i \<le> arr ! nat j"
      using assms(1) by (simp add: sorted_iff_nth_mono)
    consider (gt) "el > arr ! nat k" | (lt) "el < arr ! nat k" | (eq) "el = arr ! nat k"
      by fastforce
    then show ?thesis
    proof cases
      case gt
      have r: "search_loop (Suc fuel) (map Num arr) (Num el) d m n =
               search_loop fuel (map Num arr) (Num el) d (k + 1) n"
        using True gt by (simp add: k32 atk d_Num Let_def)
      have low: "\<forall>i. 0 \<le> i \<and> i < k + 1 \<longrightarrow> arr ! nat i \<le> el"
        using mono[OF _ _ kin(2)] gt by force
      show ?thesis unfolding r
        by (rule Suc.IH) (use kb kin Suc.prems low in auto)
    next
      case lt
      have r: "search_loop (Suc fuel) (map Num arr) (Num el) d m n =
               search_loop fuel (map Num arr) (Num el) d m (k - 1)"
        using True lt by (simp add: k32 atk d_Num Let_def)
      have high: "\<forall>i. k - 1 < i \<and> i < int (length arr) \<longrightarrow> el \<le> arr ! nat i"
      proof (intro allI impI)
        fix i assume i: "k - 1 < i \<and> i < int (length arr)"
        then have "arr ! nat k \<le> arr ! nat i" using mono[of k i] kin by simp
        then show "el \<le> arr ! nat i" using lt by simp
      qed
      show ?thesis unfolding r
        by (rule Suc.IH) (use kb kin Suc.prems high in auto)
    next
      case eq
      have r: "search_loop (Suc fuel) (map Num arr) (Num el) d m n = Inr k"
        using True eq by (simp add: k32 atk d_Num Let_def)
      have "\<forall>i. 0 \<le> i \<and> i < k \<longrightarrow> arr ! nat i \<le> el"
        using mono[OF _ _ kin(2)] eq by force
      moreover have "\<forall>i. k \<le> i \<and> i < int (length arr) \<longrightarrow> el \<le> arr ! nat i"
        using mono[of k] kin eq by simp
      ultimately show ?thesis using r kin by simp
    qed
  qed
qed

lemma binarySearch_index:
  assumes "sorted arr" and "length arr \<le> 1073741824"
  obtains r where "binarySearch (map Num arr) (Num el) d = Inr r"
    and "0 \<le> r" and "r \<le> int (length arr)"
    and "\<forall>x \<in> set (take (nat r) arr). x \<le> el"
    and "\<forall>x \<in> set (drop (nat r) arr). el \<le> x"
proof -
  obtain r where r: "binarySearch (map Num arr) (Num el) d = Inr r"
    and b: "0 \<le> r" "r \<le> int (length arr)"
      "\<forall>i. 0 \<le> i \<and> i < r \<longrightarrow> arr ! nat i \<le> el"
      "\<forall>i. r \<le> i \<and> i < int (length arr) \<longrightarrow> el \<le> arr ! nat i"
    using search_loop_bounds[OF assms, of 0 "int (length arr) - 1" "length arr" el]
    by (auto simp: binarySearch_def)
  have lo: "\<forall>x \<in> set (take (nat r) arr). x \<le> el"
  proof
    fix x assume "x \<in> set (take (nat r) arr)"
    then obtain j where j: "j < length (take (nat r) arr)" "x = take (nat r) arr ! j"
      by (auto simp: in_set_conv_nth)
    then have "j < nat r" "j < length arr" by simp_all
    then have "0 \<le> int j \<and> int j < r" by linarith
    then have "arr ! nat (int j) \<le> el" using b(3) by blast
    then show "x \<le> el" using j by simp
  qed
  have hi: "\<forall>x \<in> set (drop (nat r) arr). el \<le> x"
  proof
    fix x assume "x \<in> set (drop (nat r) arr)"
    then obtain j where j: "j < length (drop (nat r) arr)" "x = drop (nat r) arr ! j"
      by (auto simp: in_set_conv_nth)
    then have jl: "nat r + j < length arr" by simp
    have "r \<le> r + int j \<and> r + int j < int (length arr)" using b jl by auto
    then have "el \<le> arr ! nat (r + int j)" using b(4) by blast
    moreover have "nat (r + int j) = nat r + j" using b by (simp add: nat_add_distrib)
    ultimately show "el \<le> x" using j jl by simp
  qed
  show thesis using that[OF r b(1,2) lo hi] .
qed

lemma insert_el_insort:
  assumes "sorted arr" and "length arr \<le> 1073741824"
  shows "insert_el (map Num arr) (Num el) = Inr (map Num (insort el arr))"
proof -
  obtain r where r: "binarySearch (map Num arr) (Num el) d = Inr r"
    and b: "0 \<le> r" "r \<le> int (length arr)"
    and lo: "\<forall>x \<in> set (take (nat r) arr). x \<le> el"
    and hi: "\<forall>x \<in> set (drop (nat r) arr). el \<le> x"
    using binarySearch_index[OF assms] by blast
  let ?ys = "take (nat r) arr @ [el] @ drop (nat r) arr"
  have e: "insert_el (map Num arr) (Num el) = Inr (map Num ?ys)"
    using r b by (simp add: insert_el_def splice0_def Let_def min_def take_map drop_map)
  have "sorted (take (nat r) arr)" "sorted (drop (nat r) arr)"
    using assms(1) by (simp_all add: sorted_wrt_take sorted_wrt_drop)
  moreover have "\<forall>x \<in> set (take (nat r) arr). \<forall>y \<in> set (drop (nat r) arr). x \<le> y"
    using lo hi by (meson order_trans)
  ultimately have s: "sorted ?ys" using lo hi by (simp add: sorted_append)
  have "mset (take (nat r) arr) + mset (drop (nat r) arr) = mset arr"
    by (metis append_take_drop_id mset_append)
  then have "mset ?ys = mset (insort el arr)" by simp
  moreover have "sorted (insort el arr)" using assms(1) by (simp add: sorted_insort)
  ultimately have "?ys = insort el arr"
    using s by (metis properties_for_sort sorted_sort_id)
  then show ?thesis using e by simp
qed

lemma insert_each_sort:
  "sorted acc \<Longrightarrow> length acc + length vs \<le> 1073741824 \<Longrightarrow>
   insert_each (map Num acc) (map Num vs) = Inr (map Num (sort (acc @ vs)))"
proof (induction vs arbitrary: acc)
  case Nil
  then show ?case by (simp add: sorted_sort_id)
next
  case (Cons v vs)
  have l: "length acc \<le> 1073741824" using Cons.prems by simp
  have i: "insert_el (map Num acc) (Num v) = Inr (map Num (insort v acc))"
    by (rule insert_el_insort[OF Cons.prems(1) l])
  have "insert_each (map Num (insort v acc)) (map Num vs)
        = Inr (map Num (sort (insort v acc @ vs)))"
    by (rule Cons.IH) (use Cons.prems in \<open>simp_all add: sorted_insort\<close>)
  moreover have "sort (insort v acc @ vs) = sort (acc @ v # vs)"
    by (rule properties_for_sort) simp_all
  ultimately show ?case using i by simp
qed

lemma binarySearch_between:
  assumes "sorted arr"
    and lo: "\<forall>x \<in> set (take (nat r) arr). x \<le> el"
    and hi: "\<forall>x \<in> set (drop (nat r) arr). el \<le> x"
    and b: "0 \<le> r" "r \<le> int (length arr)"
  shows "int (length (filter (\<lambda>x. x < el) arr)) \<le> r"
    and "r \<le> int (length (filter (\<lambda>x. x \<le> el) arr))"
proof -
  let ?i = "nat r"
  have split: "arr = take ?i arr @ drop ?i arr" by simp
  have "filter (\<lambda>x. x < el) (drop ?i arr) = []"
    using hi by (auto simp: filter_empty_conv)
  then have "filter (\<lambda>x. x < el) arr = filter (\<lambda>x. x < el) (take ?i arr)"
    by (metis split filter_append append_Nil2)
  then have "length (filter (\<lambda>x. x < el) arr) \<le> length (take ?i arr)"
    by (metis length_filter_le)
  then show "int (length (filter (\<lambda>x. x < el) arr)) \<le> r"
    using b by simp
  have "filter (\<lambda>x. x \<le> el) (take ?i arr) = take ?i arr"
    using lo by (simp add: filter_id_conv)
  then have "length (take ?i arr) \<le> length (filter (\<lambda>x. x \<le> el) arr)"
    by (metis split filter_append length_append le_add1)
  then show "r \<le> int (length (filter (\<lambda>x. x \<le> el) arr))"
    using b by simp
qed

text \<open>
  C5, as the claim states it, fails: \<^verbatim>\<open>NaN\<close> is a number, the comparator \<open>d\<close> answers
  \<open>0\<close> whenever one side is \<^verbatim>\<open>NaN\<close>, and the search then stops at its first probe.
  Inserting \<open>7\<close> into the array \<open>[0, NaN, 1, 5]\<close>, which is in order, puts it in front
  of \<open>1\<close>; and the inserts of \<open>1, 5, NaN, 0, 7\<close> into the empty array build that array.
\<close>

theorem insert_nan_counterexample:
  "js_sorted [Num 0, NaN, Num 1, Num 5]
   \<and> insert_el [Num 0, NaN, Num 1, Num 5] (Num 7) = Inr [Num 0, Num 7, NaN, Num 1, Num 5]
   \<and> \<not> js_sorted [Num 0, Num 7, NaN, Num 1, Num 5]
   \<and> insert_each [] [Num 1, Num 5, NaN, Num 0, Num 7] = Inr [Num 0, Num 7, NaN, Num 1, Num 5]"
  by code_simp

text \<open>
  C5, amended. On a sorted array \<open>arr\<close> of at most \<open>2\<^sup>3\<^sup>0\<close> finite numbers and for every
  finite number \<open>v\<close>, \<open>binarySearch\<close> returns an index between \<open>0\<close> and the length,
  no smaller than the number of elements below \<open>v\<close> and no larger than the number of
  elements up to \<open>v\<close> (so it is \<open>0\<close> for a target smaller than every element and the
  length for a larger one); inserting \<open>v\<close> at that index leaves the array sorted, and
  this is what \<open>insert\<close> returns: the array with \<open>v\<close> added, sorted again. On the empty
  array the index is \<open>0\<close>, whatever the target. Starting from the empty array, the
  inserts of at most \<open>2\<^sup>3\<^sup>0\<close> finite numbers, in any order, build the sorted array of
  these numbers.
\<close>

theorem insert_sortedness:
  assumes "sorted arr" and "length arr \<le> 1073741824"
  shows "\<exists>i. binarySearch (map Num arr) (Num v) d = Inr i
       \<and> 0 \<le> i \<and> i \<le> int (length arr)
       \<and> int (length (filter (\<lambda>x. x < v) arr)) \<le> i
       \<and> i \<le> int (length (filter (\<lambda>x. x \<le> v) arr))
       \<and> sorted (take (nat i) arr @ [v] @ drop (nat i) arr)
       \<and> insert_el (map Num arr) (Num v)
           = Inr (map Num (take (nat i) arr @ [v] @ drop (nat i) arr))
       \<and> js_sorted (map Num (take (nat i) arr @ [v] @ drop (nat i) arr))
       \<and> mset (take (nat i) arr @ [v] @ drop (nat i) arr) = add_mset v (mset arr)
       \<and> binarySearch [] el d = Inr 0
       \<and> (length vs \<le> 1073741824 \<longrightarrow>
            insert_each [] (map Num vs) = Inr (map Num (sort vs))
            \<and> js_sorted (map Num (sort vs)))"
proof -
  obtain r where r: "binarySearch (map Num arr) (Num v) d = Inr r"
    and b: "0 \<le> r" "r \<le> int (length arr)"
    and lo: "\<forall>x \<in> set (take (nat r) arr). x \<le> v"
    and hi: "\<forall>x \<in> set (drop (nat r) arr). v \<le> x"
    using binarySearch_index[OF assms] by blast
  let ?ys = "take (nat r) arr @ [v] @ drop (nat r) arr"
  note bt = binarySearch_between[OF assms(1) lo hi b]
  have e: "insert_el (map Num arr) (Num v) = Inr (map Num ?ys)"
    using r b by (simp add: insert_el_def splice0_def Let_def min_def take_map drop_map)
  have inj: "inj Num" by (simp add: inj_def)
  have "map Num ?ys = map Num (insort v arr)"
    using e insert_el_insort[OF assms, of v] by simp
  then have ys: "?ys = insort v arr" using inj_map_eq_map[OF inj] by blast
  have s: "sorted ?ys" unfolding ys using assms(1) by (simp add: sorted_insort)
  have m: "mset ?ys = add_mset v (mset arr)" unfolding ys by simp
  have z: "binarySearch [] el d = Inr 0" by (simp add: binarySearch_def)
  have f: "length vs \<le> 1073741824 \<longrightarrow>
            insert_each [] (map Num vs) = Inr (map Num (sort vs))
            \<and> js_sorted (map Num (sort vs))"
    using insert_each_sort[of "[]" vs] by (simp add: js_sorted_Num)
  have j: "js_sorted (map Num ?ys)" using s by (simp only: js_sorted_Num)
  show ?thesis
    apply (rule exI[where x = r])
    using r b bt s e j m z f apply blast
    done
qed

theorem insert_sortedness_witness:
  "sorted [1, 3, 5 :: rat] \<and> length [1, 3, 5 :: rat] \<le> 1073741824
   \<and> binarySearch [Num 1, Num 3, Num 5] (Num 4) d = Inr 2
   \<and> insert_el [Num 1, Num 3, Num 5] (Num 4) = Inr [Num 1, Num 3, Num 4, Num 5]
   \<and> binarySearch [Num 1, Num 3, Num 5] (Num 0) d = Inr 0
   \<and> binarySearch [Num 1, Num 3, Num 5] (Num 9) d = Inr 3
   \<and> js_sorted [Num 1, Num 3, Num 4, Num 5]
   \<and> insert_each [] [Num 5, Num 1, Num 3] = Inr [Num 1, Num 3, Num 5]"
proof -
  have h: "sorted [1, 3, 5 :: rat]" "length [1, 3, 5 :: rat] \<le> 1073741824" by simp_all
  have b: "binarySearch [Num 1, Num 3, Num 5] (Num 4) d = Inr 2"
    "binarySearch [Num 1, Num 3, Num 5] (Num 0) d = Inr 0"
    "binarySearch [Num 1, Num 3, Num 5] (Num 9) d = Inr 3"
    by code_simp+
  have l: "length [5, 1, 3 :: rat] \<le> 1073741824" by simp
  show ?thesis
    using h b insert_sortedness[OF h, of 4 Undefined "[5, 1, 3]"] l by simp
qed

section \<open>Argument resolution\<close>

text \<open>
  C3, as the claim states it, fails: with a grouper that is neither a string nor a
  function, \<open>groupby\<close> on the empty dataset returns the empty mapping.
\<close>

theorem resolution_counterexample:
  "groupby no_state [] (Other True) (Other False) None Undefined = Inr ([], no_state)"
  by (simp add: groupby_def init_tables_def Let_def)

text \<open>
  C3, amended. \<open>groupby\<close> does not check its arguments when it resolves them. A grouper
  that is neither a field name nor a function makes the call fail with a
  \<^verbatim>\<open>TypeError\<close> when the first row is processed, and not at all on an empty dataset.
  The same holds for a truthy selector of that kind, after the grouper has been applied
  to the first row; a falsy selector (an omitted one, the empty string) is replaced by
  the grouper.
\<close>

theorem no_resolution_check:
  "groupby fs [] (Other b) selector reducer initial = Inr ([], fs)
   \<and> groupby fs (row # rows) (Other b) selector reducer initial = Inl TypeError
   \<and> groupby fs [] grouper (Other True) reducer initial = Inr ([], fs)
   \<and> groupby fs (row # rows) grouper (Other True) reducer initial =
       (case call (resolve grouper) row of Inl e \<Rightarrow> Inl e | Inr gid \<Rightarrow> Inl TypeError)
   \<and> groupby fs dataset grouper (Other False) reducer initial =
       groupby fs dataset grouper grouper reducer initial
   \<and> groupby fs dataset grouper (Field []) reducer initial =
       groupby fs dataset grouper grouper reducer initial"
proof -
  have 1: "groupby fs [] (Other b) selector reducer initial = Inr ([], fs)"
    by (simp add: groupby_def init_tables_def Let_def split: option.split prod.split)
  have 2: "groupby fs (row # rows) (Other b) selector reducer initial = Inl TypeError"
    by (simp add: groupby_def Let_def step_def split: option.split prod.split)
  have 3: "groupby fs [] grouper (Other True) reducer initial = Inr ([], fs)"
    by (simp add: groupby_def init_tables_def Let_def split: option.split prod.split)
  have 4: "groupby fs (row # rows) grouper (Other True) reducer initial =
       (case call (resolve grouper) row of Inl e \<Rightarrow> Inl e | Inr gid \<Rightarrow> Inl TypeError)"
    by (simp add: groupby_def Let_def step_def split: option.split prod.split sum.split)
  have 5: "groupby fs dataset grouper (Other False) reducer initial =
       groupby fs dataset grouper grouper reducer initial"
    by (cases grouper) (simp_all add: groupby_def Let_def)
  have 6: "groupby fs dataset grouper (Field []) reducer initial =
       groupby fs dataset grouper grouper reducer initial"
    by (cases grouper) (simp_all add: groupby_def Let_def)
  show ?thesis using 1 2 3 4 5 6 by blast
qed

section \<open>The interval grouper\<close>

lemma scan_takeWhile:
  "scan (Num v) bounds i = Inr (i + length (takeWhile (\<lambda>b. b \<le> v) bounds))"
  by (induction bounds arbitrary: i) (simp_all add: not_less)

text \<open>
  C8. For a row whose selected value is the number \<open>v\<close>, the grouper built by
  \<open>interval\<close> stops at the index \<open>i\<close> of the first bound strictly greater than \<open>v\<close>,
  or at the number of bounds when no bound exceeds \<open>v\<close>. Without labels, or with fewer
  labels than bounds, it returns the number \<open>i\<close>. With exactly as many labels as bounds
  it returns the label \<open>i\<close> for the bounded intervals and \<^verbatim>\<open>">"\<close> followed by the last
  label for the unbounded one (with no bounds and no labels there is no last label, and
  the result is \<^verbatim>\<open>">undefined"\<close>); with more labels it returns the label \<open>i\<close>.
\<close>

theorem interval_semantics:
  assumes "call (resolve selector) row = Inr (Num v)"
  shows "let i = length (takeWhile (\<lambda>b. b \<le> v) bounds) in
       i \<le> length bounds \<and> (\<forall>j < i. bounds ! j \<le> v) \<and> (i < length bounds \<longrightarrow> v < bounds ! i)
     \<and> (labels = None \<longrightarrow> call (interval selector bounds labels) row = Inr (Num (of_nat i)))
     \<and> (\<forall>ls. labels = Some ls \<longrightarrow>
           (length ls < length bounds \<longrightarrow>
              call (interval selector bounds labels) row = Inr (Num (of_nat i)))
         \<and> (length ls = length bounds \<and> i < length bounds \<longrightarrow>
              call (interval selector bounds labels) row = Inr (Str (ls ! i)))
         \<and> (length ls = length bounds \<and> i = length bounds \<and> bounds \<noteq> [] \<longrightarrow>
              call (interval selector bounds labels) row = Inr (Str (''>'' @ last ls)))
         \<and> (length ls = length bounds \<and> bounds = [] \<longrightarrow>
              call (interval selector bounds labels) row = Inr (Str ''>undefined''))
         \<and> (length ls > length bounds \<longrightarrow>
              call (interval selector bounds labels) row = Inr (Str (ls ! i))))"
proof -
  define i where "i = length (takeWhile (\<lambda>b. b \<le> v) bounds)"
  have il: "i \<le> length bounds" by (simp add: i_def length_takeWhile_le)
  have before: "\<forall>j < i. bounds ! j \<le> v"
    unfolding i_def by (metis nth_length_takeWhile takeWhile_nth nth_mem set_takeWhileD)
  have at_i: "i < length bounds \<longrightarrow> v < bounds ! i"
    unfolding i_def using nth_length_takeWhile not_less by blast
  have c: "call (interval selector bounds labels) row = Inr (labeler bounds labels i)"
    using assms by (simp add: interval_def Let_def scan_takeWhile i_def)
  have l1: "labels = None \<longrightarrow> labeler bounds labels i = Num (of_nat i)"
    by (simp add: labeler_def)
  have l2: "\<forall>ls. labels = Some ls \<longrightarrow>
           (length ls < length bounds \<longrightarrow> labeler bounds labels i = Num (of_nat i))
         \<and> (length ls = length bounds \<and> i < length bounds \<longrightarrow>
              labeler bounds labels i = Str (ls ! i))
         \<and> (length ls = length bounds \<and> i = length bounds \<and> bounds \<noteq> [] \<longrightarrow>
              labeler bounds labels i = Str (''>'' @ last ls))
         \<and> (length ls = length bounds \<and> bounds = [] \<longrightarrow>
              labeler bounds labels i = Str ''>undefined'')
         \<and> (length ls > length bounds \<longrightarrow> labeler bounds labels i = Str (ls ! i))"
  proof (intro allI impI)
    fix ls assume l: "labels = Some ls"
    have "length ls = length bounds \<and> bounds \<noteq> []
            \<longrightarrow> ls \<noteq> [] \<and> last ls = ls ! (length bounds - 1)"
      by (metis last_conv_nth length_0_conv)
    moreover have "bounds \<noteq> [] \<longrightarrow> Suc 0 \<le> length bounds" by (cases bounds) simp_all
    ultimately show "(length ls < length bounds \<longrightarrow> labeler bounds labels i = Num (of_nat i))
         \<and> (length ls = length bounds \<and> i < length bounds \<longrightarrow>
              labeler bounds labels i = Str (ls ! i))
         \<and> (length ls = length bounds \<and> i = length bounds \<and> bounds \<noteq> [] \<longrightarrow>
              labeler bounds labels i = Str (''>'' @ last ls))
         \<and> (length ls = length bounds \<and> bounds = [] \<longrightarrow>
              labeler bounds labels i = Str ''>undefined'')
         \<and> (length ls > length bounds \<longrightarrow> labeler bounds labels i = Str (ls ! i))"
      using il l by (auto simp: labeler_def)
  qed
  show ?thesis
    unfolding Let_def i_def[symmetric]
    apply (simp only: c sum.inject)
    using il before at_i l1 l2 apply blast
    done
qed

text \<open>
  The documented example: the bound \<open>8\<close> sends the ratings \<open>8.9\<close> and \<open>8.7\<close> to interval
  \<open>1\<close> and \<open>7.6\<close> to interval \<open>0\<close>; with the one label \<^verbatim>\<open>"low"\<close> the intervals are
  \<^verbatim>\<open>"low"\<close> and \<^verbatim>\<open>">low"\<close>.
\<close>

theorem interval_semantics_witness:
  "call (resolve (Field ''Rating'')) fight_club = Inr (Num (89/10))
   \<and> call (interval (Field ''Rating'') [8] None) fight_club = Inr (Num 1)
   \<and> call (interval (Field ''Rating'') [8] None) the_matrix = Inr (Num 1)
   \<and> call (interval (Field ''Rating'') [8] None) stranger = Inr (Num 0)
   \<and> call (interval (Field ''Rating'') [8] (Some [''low''])) fight_club = Inr (Str ''>low'')
   \<and> call (interval (Field ''Rating'') [8] (Some [''low''])) stranger = Inr (Str ''low'')"
proof -
  have r: "get fight_club ''Rating'' = Num (89/10)" "get the_matrix ''Rating'' = Num (87/10)"
    "get stranger ''Rating'' = Num (76/10)"
    by (simp_all add: fight_club_def the_matrix_def stranger_def get_def)
  have h: "call (resolve (Field ''Rating'')) fight_club = Inr (Num (89/10))"
    by (simp add: r)
  show ?thesis
    using h interval_semantics[OF h, of "[8]" None] interval_semantics[OF h, of "[8]" "Some [''low'']"]
    by (simp add: interval_def labeler_def r Let_def)
qed

section \<open>The grouping engine: keys\<close>




lemma obj_set_new: "k \<notin> set (keys_of ps) \<Longrightarrow> obj_set ps k v = ps @ [(k, v)]"
  unfolding keys_of_def by (induction ps) auto



lemma plain_Index [simp]: "plain_key (Index i)"
  by (simp add: plain_key_def inherited_def)











lemma set_first_seen: "set (first_seen xs) = set xs"
  by (induction xs) auto

lemma distinct_first_seen: "distinct (first_seen xs)"
  by (induction xs) (auto simp: set_first_seen)





section \<open>State of the median reducer under interleaving\<close>

text \<open>
  C1. \<open>groupby\<close> saves and restores the \<^verbatim>\<open>state\<close> property of the reducer it was
  given, here \<^verbatim>\<open>dataship.reduce.median.state\<close>, but \<open>median\<close> keeps its sorted array
  in \<^verbatim>\<open>dataship.reduce.mode.state\<close>, which is shared by all groups. On the rows
  \<open>A:1, B:10, A:2, B:20, A:3\<close> the third contribution to group \<open>A\<close> is inserted into the
  array of group \<open>B\<close>: the result for \<open>A\<close> is \<open>10\<close>, while the contributions \<open>1, 2, 3\<close>
  of \<open>A\<close> alone have the median \<open>2\<close>. (For \<open>B\<close> both are \<open>15\<close>.)
\<close>

theorem median_state_shared:
  "map_sum id fst
     (groupby no_state interleaved (Field ''g'') (Field ''x'') (Some ds_median) Undefined)
     = Inr [(StrName ''A'', Num 10), (StrName ''B'', Num 15)]
   \<and> map_sum id fst (reduce no_state [Num 1, Num 2, Num 3] reduce_median Undefined) = Inr (Num 2)
   \<and> map_sum id fst (reduce no_state [Num 10, Num 20] reduce_median Undefined) = Inr (Num 15)"
  by code_simp

section \<open>The default reducer\<close>

lemma exact_of_nat: "n \<le> 9007199254740992 \<Longrightarrow> exact (of_nat n)"
proof -
  assume n: "n \<le> 9007199254740992"
  have "quotient_of (of_nat n) = (int n, 1)"
    using quotient_of_int[of "int n"] by simp
  moreover have "int n \<le> 2 ^ 53" using n by simp
  ultimately show ?thesis by (simp add: exact_def)
qed

lemma js_plus_Num: "js_plus (Num a) (Num b) = num_result (a + b)"
  by (simp add: js_plus_def)

lemma js_plus_nat:
  assumes "n < 9007199254740992"
  shows "js_plus (Num (of_nat n)) (Num 1) = Inr (Num (of_nat (Suc n)))"
proof -
  have "exact (of_nat (Suc n))" using assms by (intro exact_of_nat) simp
  then show ?thesis by (simp add: js_plus_Num num_result_def add.commute)
qed

lemma js_plus_0_1 [simp]: "js_plus (Num 0) (Num 1) = Inr (Num 1)"
  using js_plus_nat[of 0] by simp






end
